theory Spec2Isabelle
  imports Complex_Main "HOL-Library.Char_ord" "HOL-Library.List_Lexorder" "HOL-Library.Product_Lexorder"
    "HOL-Library.Multiset"
begin

section \<open>Python strings and attribute extraction\<close>

text \<open>
  The exceptions of the source that the model keeps as values. \<open>IndexError\<close> is what
  \<^verbatim>\<open>line.split(k)[1]\<close> raises when the key does not occur, \<open>CalledProcessError\<close> is
  what \<^verbatim>\<open>subprocess.check_call\<close> raises on a non-zero exit status, \<open>OSError\<close> and
  \<open>IOError\<close> come from the file system calls, \<open>ValueError\<close> from the conversion of
  a text that is not a number to a float.
\<close>

datatype error = IndexError | CalledProcessError | OSError | IOError | ValueError | ParserError

text \<open>
  \<^verbatim>\<open>s.split(sep)\<close> for a non-empty separator: the pieces between the non-overlapping
  occurrences of \<open>sep\<close>, found from the left. The second argument collects the current
  piece in reverse.
\<close>

function split_py :: "string \<Rightarrow> string \<Rightarrow> string \<Rightarrow> string list" where
  "split_py sep acc [] = [rev acc]"
| "split_py sep acc (c # cs) =
     (if sep \<noteq> [] \<and> take (length sep) (c # cs) = sep
      then rev acc # split_py sep [] (drop (length sep) (c # cs))
      else split_py sep (c # acc) cs)"
  by pat_completeness auto
termination
  by (relation "measure (\<lambda>(sep, acc, s). length s)") (auto simp: neq_Nil_conv)

definition split :: "string \<Rightarrow> string \<Rightarrow> string list" where
  "split s sep = split_py sep [] s"

text \<open>\<^verbatim>\<open>xs[1]\<close> on a Python list: the second element, or IndexError.\<close>

fun item1 :: "'a list \<Rightarrow> error + 'a" where
  "item1 (x # y # ys) = Inr y"
| "item1 xs = Inl IndexError"

text \<open>
  \<^verbatim>\<open>line.split(key)[1]\<close> followed by a split at the double quote and a second
  \<^verbatim>\<open>[1]\<close>, the extraction every consumer of attribute
  text uses: the text between the first two double quotes that follow the first
  occurrence of the key.
\<close>

definition extract_attr :: "string \<Rightarrow> string \<Rightarrow> error + string" where
  "extract_attr line key =
     (case item1 (split line key) of
        Inl e \<Rightarrow> Inl e
      | Inr rest \<Rightarrow> item1 (split rest [CHR 0x22]))"

section \<open>The GTF line selector\<close>

text \<open>
  \<^verbatim>\<open>for line in infid\<close> yields the lines of the file with their line ends: a line
  of the file is the text up to and including the next newline, and the text after the
  last newline when it is not empty.
\<close>

fun file_lines_aux :: "string \<Rightarrow> string \<Rightarrow> string list" where
  "file_lines_aux acc [] = (if acc = [] then [] else [rev acc])"
| "file_lines_aux acc (c # cs) =
     (if c = CHR 0x0A then rev (c # acc) # file_lines_aux [] cs
      else file_lines_aux (c # acc) cs)"

definition file_lines :: "string \<Rightarrow> string list" where
  "file_lines content = file_lines_aux [] content"

text \<open>The guard \<^verbatim>\<open>len(line) == 0 or line[0] == '#'\<close> of the selector's loop.\<close>

definition skipped :: "string \<Rightarrow> bool" where
  "skipped line = (length line = 0 \<or> hd line = CHR ''#'')"

text \<open>
  The loop of \<^verbatim>\<open>_filter_gtf_by_transcript\<close>. The state is the list of lines written
  to the output so far; an exception leaves the lines already written in the output and
  ends the loop.
\<close>

fun filter_loop :: "string set \<Rightarrow> string list \<Rightarrow> string list \<Rightarrow> string list \<times> error option" where
  "filter_loop keep out [] = (out, None)"
| "filter_loop keep out (line # rest) =
     (if skipped line then filter_loop keep out rest
      else case extract_attr line ''transcript_id'' of
             Inl e \<Rightarrow> (out, Some e)
           | Inr transcript_id \<Rightarrow>
               filter_loop keep (if transcript_id \<in> keep then out @ [line] else out) rest)"

definition filter_gtf_by_transcript :: "string list \<Rightarrow> string set \<Rightarrow> string list \<times> error option" where
  "filter_gtf_by_transcript gtf_in transcripts_to_keep = filter_loop transcripts_to_keep [] gtf_in"

text \<open>A line the loop gets past: skipped, or carrying a transcript id.\<close>

definition readable :: "string \<Rightarrow> bool" where
  "readable line = (skipped line \<or> isl (extract_attr line ''transcript_id'') = False)"

text \<open>A line the loop writes: not skipped, with its transcript id in the keep-set.\<close>

definition selected :: "string set \<Rightarrow> string \<Rightarrow> bool" where
  "selected keep line =
     (\<not> skipped line \<and>
      (case extract_attr line ''transcript_id'' of Inl e \<Rightarrow> False | Inr t \<Rightarrow> t \<in> keep))"

text \<open>A small assembly file: a comment, a line of transcript T2, two lines of T1.\<close>

definition gtf_fixture :: "string list" where
  \<open>gtf_fixture = file_lines
     (''# transcript_id "T1"\<newline>'' @
      ''chr1 x exon 1 9 . + . transcript_id "T2"; gene_id "G1";\<newline>'' @
      ''chr1 x exon 1 9 . + . gene_id "G1"; zz "1"; transcript_id "T1";\<newline>'' @
      ''chr1 x exon 20 29 . + . gene_id "G1"; transcript_id "T1"'')\<close>

text \<open>
  An assembly file whose second line has no transcript id, between two records of
  transcript T1.
\<close>

definition gtf_malformed_fixture :: "string list" where
  \<open>gtf_malformed_fixture = file_lines
     (''chr1 x exon 1 9 . + . gene_id "G1"; transcript_id "T1";\<newline>'' @
      ''chr1 x exon 12 15 . + . gene_id "G2";\<newline>'' @
      ''chr1 x exon 20 29 . + . gene_id "G1"; transcript_id "T1";\<newline>'')\<close>

section \<open>The classifier\<close>

text \<open>
  A cell of a pandas table holds a text value or is missing (NaN): \<open>None\<close> is the
  missing cell. Comparing a cell with a constant by \<^verbatim>\<open>==\<close> is false on a missing
  cell; comparing two cells by \<^verbatim>\<open>!=\<close> is true as soon as one of them is missing.
\<close>

type_synonym cell = "string option"

definition cell_eq :: "cell \<Rightarrow> string \<Rightarrow> bool" where
  "cell_eq c s = (c = Some s)"

definition cell_ne :: "cell \<Rightarrow> cell \<Rightarrow> bool" where
  "cell_ne a b = (a = None \<or> b = None \<or> a \<noteq> b)"

text \<open>
  A row of the table \<^verbatim>\<open>_get_cuffcompare_class_codes\<close> returns; the table is the
  list of its rows, each with its index value (the transcript id).
\<close>

record comparison =
  class_code :: cell
  ref_id :: cell
  ref_gene_id :: cell

type_synonym comparison_table = "(string \<times> comparison) list"

text \<open>
  A row of \<^verbatim>\<open>novel_vs_ref.join(novel_vs_lnc, lsuffix='__all', rsuffix='__lnc')\<close> with
  the \<open>classification\<close> column.
\<close>

record classified =
  class_code__all :: cell
  ref_id__all :: cell
  ref_gene_id__all :: cell
  class_code__lnc :: cell
  ref_id__lnc :: cell
  ref_gene_id__lnc :: cell
  classification :: string

type_synonym classified_table = "(string \<times> classified) list"

definition missing :: comparison where
  "missing = \<lparr>class_code = None, ref_id = None, ref_gene_id = None\<rparr>"

definition joined_row :: "comparison \<Rightarrow> comparison \<Rightarrow> classified" where
  "joined_row a b =
     \<lparr>class_code__all = class_code a, ref_id__all = ref_id a, ref_gene_id__all = ref_gene_id a,
      class_code__lnc = class_code b, ref_id__lnc = ref_id b, ref_gene_id__lnc = ref_gene_id b,
      classification = ''.''\<rparr>"

text \<open>
  \<^verbatim>\<open>left.join(right)\<close> is pandas' default, a left join on the index: every row
  of the left table is kept, once for each row of the right table with the same index
  value, and once with nothing beside it (missing cells) when there is none.
\<close>

definition join_one :: "(string \<times> 'b) list \<Rightarrow> string \<times> 'a \<Rightarrow> (string \<times> 'a \<times> 'b option) list" where
  "join_one r ka =
     (case filter (\<lambda>kb. fst kb = fst ka) r of
        [] \<Rightarrow> [(fst ka, snd ka, None)]
      | ms \<Rightarrow> map (\<lambda>kb. (fst ka, snd ka, Some (snd kb))) ms)"

definition left_join :: "(string \<times> 'a) list \<Rightarrow> (string \<times> 'b) list \<Rightarrow> (string \<times> 'a \<times> 'b option) list" where
  "left_join l r = concat (map (join_one r) l)"

text \<open>The join of the two comparison tables; the new column \<open>classification\<close> starts as \<^verbatim>\<open>'.'\<close>.\<close>

definition join_suffix :: "comparison_table \<Rightarrow> comparison_table \<Rightarrow> classified_table" where
  "join_suffix l r =
     map (\<lambda>(k, a, b). (k, joined_row a (case b of None \<Rightarrow> missing | Some m \<Rightarrow> m)))
       (left_join l r)"

text \<open>\<^verbatim>\<open>x.loc[mask, 'classification'] = label\<close>: the rows the mask selects get the label.\<close>

definition loc_assign :: "(classified \<Rightarrow> bool) \<Rightarrow> string \<Rightarrow> classified_table \<Rightarrow> classified_table" where
  "loc_assign cond label x =
     map (\<lambda>(k, r). (k, if cond r then r\<lparr>classification := label\<rparr> else r)) x"

text \<open>The conditions of the six assignments, without the test of the current label.\<close>

definition rule1 :: "classified \<Rightarrow> bool" where
  "rule1 r = cell_eq (class_code__lnc r) ''=''"

definition rule2 :: "classified \<Rightarrow> bool" where
  "rule2 r = (cell_eq (class_code__lnc r) ''j'' \<and> cell_eq (class_code__all r) ''j''
              \<and> cell_ne (ref_gene_id__lnc r) (ref_gene_id__all r))"

definition rule3 :: "classified \<Rightarrow> bool" where
  "rule3 r = cell_eq (class_code__lnc r) ''j''"

definition rule4 :: "classified \<Rightarrow> bool" where
  "rule4 r = cell_eq (class_code__all r) ''u''"

definition rule5 :: "classified \<Rightarrow> bool" where
  "rule5 r = (cell_eq (class_code__all r) ''x'' \<and> cell_eq (class_code__lnc r) ''u'')"

definition rule6 :: "classified \<Rightarrow> bool" where
  "rule6 r = cell_eq (class_code__all r) ''i''"

definition unset :: "classified \<Rightarrow> bool" where
  "unset r = (classification r = ''.'')"

text \<open>
  Step 2 of \<^verbatim>\<open>classify_novel_transcripts\<close>: seven assignments in sequence, each on
  the rows whose label is still \<^verbatim>\<open>'.'\<close>. The two tables are what the comparison
  adapter returned for the reference and for the known lncRNAs.
\<close>

definition classify_novel_transcripts :: "comparison_table \<Rightarrow> comparison_table \<Rightarrow> classified_table" where
  "classify_novel_transcripts novel_vs_ref novel_vs_lnc =
     (let x = join_suffix novel_vs_ref novel_vs_lnc;
          x = loc_assign (\<lambda>r. unset r \<and> rule1 r) ''known_isoform'' x;
          x = loc_assign (\<lambda>r. unset r \<and> rule2 r) ''possible_artifact'' x;
          x = loc_assign (\<lambda>r. unset r \<and> rule3 r) ''novel_isoform'' x;
          x = loc_assign (\<lambda>r. unset r \<and> rule4 r) ''intergenic'' x;
          x = loc_assign (\<lambda>r. unset r \<and> rule5 r) ''antisense'' x;
          x = loc_assign (\<lambda>r. unset r \<and> rule6 r) ''intronic'' x;
          x = loc_assign (\<lambda>r. unset r) ''not_a_lncRNA'' x
      in x)"

text \<open>The first rule that matches, in the order 1 to 7.\<close>

definition first_match :: "classified \<Rightarrow> string" where
  "first_match r =
     (if rule1 r then ''known_isoform''
      else if rule2 r then ''possible_artifact''
      else if rule3 r then ''novel_isoform''
      else if rule4 r then ''intergenic''
      else if rule5 r then ''antisense''
      else if rule6 r then ''intronic''
      else ''not_a_lncRNA'')"

definition labels :: "string list" where
  "labels = [''known_isoform'', ''possible_artifact'', ''novel_isoform'', ''intergenic'',
             ''antisense'', ''intronic'', ''not_a_lncRNA'']"

definition cmp :: "string \<Rightarrow> string \<Rightarrow> comparison" where
  "cmp c g = \<lparr>class_code = Some c, ref_id = Some ''R'', ref_gene_id = Some g\<rparr>"

text \<open>Comparison tables for three transcripts, against the reference and the lncRNAs.\<close>

definition ref_fixture :: comparison_table where
  "ref_fixture = [(''T1'', cmp ''j'' ''A''), (''T2'', cmp ''j'' ''A''), (''T3'', cmp ''='' ''B'')]"

definition lnc_fixture :: comparison_table where
  "lnc_fixture = [(''T1'', cmp ''='' ''L''), (''T2'', cmp ''j'' ''L''), (''T3'', cmp ''u'' ''-'')]"

text \<open>One assignment on one row, and the seven of them in sequence on one row.\<close>

definition assign :: "(classified \<Rightarrow> bool) \<Rightarrow> string \<Rightarrow> classified \<Rightarrow> classified" where
  "assign c l r = (if c r then r\<lparr>classification := l\<rparr> else r)"

definition steps :: "classified \<Rightarrow> classified" where
  "steps r = assign unset ''not_a_lncRNA''
     (assign (\<lambda>r. unset r \<and> rule6 r) ''intronic''
     (assign (\<lambda>r. unset r \<and> rule5 r) ''antisense''
     (assign (\<lambda>r. unset r \<and> rule4 r) ''intergenic''
     (assign (\<lambda>r. unset r \<and> rule3 r) ''novel_isoform''
     (assign (\<lambda>r. unset r \<and> rule2 r) ''possible_artifact''
     (assign (\<lambda>r. unset r \<and> rule1 r) ''known_isoform'' r))))))"

definition relabel :: "classified \<Rightarrow> classified" where
  "relabel r = r\<lparr>classification := first_match r\<rparr>"

text \<open>An assembly file with an empty line between two records of transcript T1.\<close>

definition gtf_blank_fixture :: "string list" where
  \<open>gtf_blank_fixture = file_lines
     (''chr1 x exon 1 9 . + . gene_id "G1"; transcript_id "T1";\<newline>'' @
      ''\<newline>'' @
      ''chr1 x exon 20 29 . + . gene_id "G1"; transcript_id "T1";\<newline>'')\<close>

section \<open>The transcript aggregator and the novelty filter\<close>

text \<open>
  pandas holds the coordinates and their sums in signed 64-bit integers:
  \<open>int64\<close> is the value an exact result has there, and \<open>sum64\<close> the sum of a
  column, wrapping at every addition.
\<close>

definition int64 :: "int \<Rightarrow> int" where
  "int64 n = (n + 2 ^ 63) mod 2 ^ 64 - 2 ^ 63"

definition sum64 :: "int list \<Rightarrow> int" where
  "sum64 xs = fold (\<lambda>a s. int64 (s + a)) xs 0"

text \<open>
  A float is not-a-number, an infinity or a finite value, modelled by the rational it
  denotes. \<open>fle a b\<close> is the comparison \<^verbatim>\<open>a <= b\<close>, false as soon as one side is
  not-a-number. In a float column the missing cell is not-a-number.
  \<^verbatim>\<open>max\<close> of a group skips not-a-number and is not-a-number when the group has
  nothing else.
\<close>

datatype pyfloat = NaN | NegInf | Fin rat | PosInf

fun fle :: "pyfloat \<Rightarrow> pyfloat \<Rightarrow> bool" where
  "fle NaN b = False"
| "fle a NaN = False"
| "fle NegInf b = True"
| "fle a PosInf = True"
| "fle (Fin a) (Fin b) = (a \<le> b)"
| "fle a b = False"

definition fmax :: "pyfloat \<Rightarrow> pyfloat \<Rightarrow> pyfloat" where
  "fmax a b = (if fle a b then b else a)"

definition nanmax :: "pyfloat list \<Rightarrow> pyfloat" where
  "nanmax cs = (case filter (\<lambda>c. c \<noteq> NaN) cs of [] \<Rightarrow> NaN | c # rest \<Rightarrow> fold fmax rest c)"

text \<open>
  The columns 2, 3, 4 and 8 of a row of the assembly file as \<^verbatim>\<open>pd.read_table\<close>
  returns them (the parsing of the file into rows is the library's): feature, start,
  end and the attribute text.
\<close>

record gtf_row =
  feature :: cell
  start :: int
  endpos :: int
  attrs :: cell

text \<open>
  \<^verbatim>\<open>col.str.split(key).str[1].str.split('"').str[1]\<close>: the extraction on a column.
  The \<^verbatim>\<open>.str\<close> accessors give a missing cell where the plain string operations
  would raise, and pass a missing cell on.
\<close>

definition str_get :: "cell \<Rightarrow> string \<Rightarrow> cell" where
  "str_get c key =
     (case c of
        None \<Rightarrow> None
      | Some s \<Rightarrow> (case extract_attr s key of Inl e \<Rightarrow> None | Inr v \<Rightarrow> Some v))"

text \<open>
  \<^verbatim>\<open>.astype(float)\<close> on one cell. The conversion of a text to a float is the
  parameter \<open>float_of\<close>, whose \<open>None\<close> is a text Python does not take for a
  number (ValueError); it may give not-a-number or an infinity.
\<close>

definition astype_float :: "(string \<Rightarrow> pyfloat option) \<Rightarrow> cell \<Rightarrow> error + pyfloat" where
  "astype_float float_of c =
     (case c of
        None \<Rightarrow> Inr NaN
      | Some s \<Rightarrow> (case float_of s of None \<Rightarrow> Inl ValueError | Some v \<Rightarrow> Inr v))"

text \<open>
  A row of the table \<open>x\<close> after the new columns are computed and selected.
\<close>

record exon =
  x_gene_id :: cell
  x_transcript_id :: cell
  x_length :: int
  x_exons :: int
  x_coverage :: pyfloat

text \<open>
  The computation of the columns, row by row; the conversion of the coverage fails
  for the whole table when it fails for one row.
\<close>

fun exon_rows :: "(string \<Rightarrow> pyfloat option) \<Rightarrow> gtf_row list \<Rightarrow> error + exon list" where
  "exon_rows float_of [] = Inr []"
| "exon_rows float_of (r # rs) =
     (case astype_float float_of (str_get (attrs r) ''cov'') of
        Inl e \<Rightarrow> Inl e
      | Inr c \<Rightarrow>
          (case exon_rows float_of rs of
             Inl e \<Rightarrow> Inl e
           | Inr es \<Rightarrow>
               Inr (\<lparr>x_gene_id = str_get (attrs r) ''gene_id'',
                     x_transcript_id = str_get (attrs r) ''transcript_id'',
                     x_length = int64 (endpos r - start r + 1),
                     x_exons = 1,
                     x_coverage = c\<rparr> # es)))"

definition is_exon :: "gtf_row \<Rightarrow> bool" where
  "is_exon r = cell_eq (feature r) ''exon''"

text \<open>
  \<^verbatim>\<open>x.groupby('transcript_id')\<close>: the groups are the rows with the same transcript
  id, for the distinct ids in sorted order; rows with a missing id belong to no group.
\<close>

definition groupby_keys :: "exon list \<Rightarrow> string list" where
  "groupby_keys x = sort (remdups (List.map_filter x_transcript_id x))"

definition group :: "exon list \<Rightarrow> string \<Rightarrow> exon list" where
  "group x t = filter (\<lambda>e. x_transcript_id e = Some t) x"

text \<open>
  The three aggregations of one group and the three aggregated tables.
\<close>

definition agg_length :: "exon list \<Rightarrow> string \<Rightarrow> int" where
  "agg_length x k = sum64 (map x_length (group x k))"

definition agg_exons :: "exon list \<Rightarrow> string \<Rightarrow> int" where
  "agg_exons x k = sum64 (map x_exons (group x k))"

definition agg_coverage :: "exon list \<Rightarrow> string \<Rightarrow> pyfloat" where
  "agg_coverage x k = nanmax (map x_coverage (group x k))"

definition t_length :: "exon list \<Rightarrow> (string \<times> int) list" where
  "t_length x = map (\<lambda>t. (t, agg_length x t)) (groupby_keys x)"

definition t_num_exons :: "exon list \<Rightarrow> (string \<times> int) list" where
  "t_num_exons x = map (\<lambda>t. (t, agg_exons x t)) (groupby_keys x)"

definition t_coverage :: "exon list \<Rightarrow> (string \<times> pyfloat) list" where
  "t_coverage x = map (\<lambda>t. (t, agg_coverage x t)) (groupby_keys x)"






text \<open>
  A conversion that knows four texts.
\<close>

definition float_fixture :: "string \<Rightarrow> pyfloat option" where
  "float_fixture s =
     (if s = ''2.5'' then Some (Fin (5 / 2)) else if s = ''5.0'' then Some (Fin 5)
      else if s = ''nan'' then Some NaN else if s = ''inf'' then Some PosInf else None)"


text \<open>
  The coverage the code reads from a row, the rows for which the conversion does not
  raise, and the row of \<open>x\<close> computed from such a row.
\<close>

definition read_cov :: "(string \<Rightarrow> pyfloat option) \<Rightarrow> gtf_row \<Rightarrow> pyfloat" where
  "read_cov float_of r =
     (case astype_float float_of (str_get (attrs r) ''cov'') of Inl e \<Rightarrow> NaN | Inr c \<Rightarrow> c)"

definition cov_ok :: "(string \<Rightarrow> pyfloat option) \<Rightarrow> gtf_row \<Rightarrow> bool" where
  "cov_ok float_of r = (isl (astype_float float_of (str_get (attrs r) ''cov'')) = False)"

definition exon_of :: "(string \<Rightarrow> pyfloat option) \<Rightarrow> gtf_row \<Rightarrow> exon" where
  "exon_of float_of r =
     \<lparr>x_gene_id = str_get (attrs r) ''gene_id'',
      x_transcript_id = str_get (attrs r) ''transcript_id'',
      x_length = int64 (endpos r - start r + 1),
      x_exons = 1,
      x_coverage = read_cov float_of r\<rparr>"





text \<open>
  A row of \<open>y\<close>, the three aggregated tables joined with the comparison table.
  The columns that come from the right side of a join are missing where the right table
  has no row.
\<close>

record summary =
  y_length :: int
  y_exons :: "int option"
  y_coverage :: pyfloat
  y_class_code :: cell
  y_ref_id :: cell
  y_ref_gene_id :: cell

definition summary_row :: "(int \<times> int option) \<times> pyfloat option \<Rightarrow> comparison option \<Rightarrow> summary" where
  "summary_row s m =
     \<lparr>y_length = fst (fst s), y_exons = snd (fst s),
      y_coverage = (case snd s of None \<Rightarrow> NaN | Some c \<Rightarrow> c),
      y_class_code = (case m of None \<Rightarrow> None | Some c \<Rightarrow> class_code c),
      y_ref_id = (case m of None \<Rightarrow> None | Some c \<Rightarrow> ref_id c),
      y_ref_gene_id = (case m of None \<Rightarrow> None | Some c \<Rightarrow> ref_gene_id c)\<rparr>"

definition summary_table :: "exon list \<Rightarrow> comparison_table \<Rightarrow> (string \<times> summary) list" where
  "summary_table x t_class_code =
     map (\<lambda>(k, s, m). (k, summary_row s m))
       (left_join (left_join (left_join (t_length x) (t_num_exons x)) (t_coverage x)) t_class_code)"

text \<open>
  The mask of the filter. A comparison with a missing value is false, and a missing
  class code is not in the list.
\<close>

definition passes :: "summary \<Rightarrow> bool" where
  "passes r =
     (y_length r \<ge> 200
      \<and> (case y_exons r of None \<Rightarrow> False | Some n \<Rightarrow> n > 1)
      \<and> fle (Fin 3) (y_coverage r)
      \<and> (case y_class_code r of None \<Rightarrow> False | Some c \<Rightarrow> c \<in> set [''u'', ''j'', ''i'', ''x'']))"

text \<open>
  \<^verbatim>\<open>z.index\<close>, the keep-set given to the line selector, and the whole of
  \<^verbatim>\<open>find_novel_transcripts\<close>: from the rows and the lines of the assembly file
  and the table the comparison adapter returned for it, the summary table it writes and
  what the line selector does on the lines.
\<close>

definition novel_index :: "(string \<times> summary) list \<Rightarrow> string list" where
  "novel_index y = map fst (filter (\<lambda>kr. passes (snd kr)) y)"

definition find_novel_transcripts ::
  "(string \<Rightarrow> pyfloat option) \<Rightarrow> gtf_row list \<Rightarrow> string list \<Rightarrow> comparison_table \<Rightarrow>
   error + (string \<times> summary) list \<times> (string list \<times> error option)" where
  "find_novel_transcripts float_of rows gtf_in t_class_code =
     (case exon_rows float_of (filter is_exon rows) of
        Inl e \<Rightarrow> Inl e
      | Inr x \<Rightarrow>
          (let y = summary_table x t_class_code
           in Inr (y, filter_gtf_by_transcript gtf_in (set (novel_index y)))))"

text \<open>
  An assembly with two transcripts of two exons each (one coverage is the text
  \<^verbatim>\<open>nan\<close>), as rows and as lines; an exon whose gene id contains the text
  \<^verbatim>\<open>cov\<close>, and one with a key that ends in it; a summary at the thresholds.
\<close>

definition rows_fixture :: "gtf_row list" where
  \<open>rows_fixture =
     [\<lparr>feature = Some ''transcript'', start = 100, endpos = 449,
        attrs = Some ''gene_id "G1"; transcript_id "T1";''\<rparr>,
      \<lparr>feature = Some ''exon'', start = 100, endpos = 199,
        attrs = Some ''gene_id "G1"; transcript_id "T1"; cov "2.5";''\<rparr>,
      \<lparr>feature = Some ''exon'', start = 300, endpos = 449,
        attrs = Some ''gene_id "G1"; transcript_id "T1"; cov "5.0";''\<rparr>,
      \<lparr>feature = Some ''exon'', start = 10, endpos = 159,
        attrs = Some ''gene_id "G0"; transcript_id "T0"; cov "5.0";''\<rparr>,
      \<lparr>feature = Some ''exon'', start = 200, endpos = 259,
        attrs = Some ''gene_id "G0"; transcript_id "T0"; cov "nan";''\<rparr>]\<close>



definition summary_fixture :: summary where
  "summary_fixture =
     \<lparr>y_length = 200, y_exons = Some 2, y_coverage = Fin 3, y_class_code = Some ''u'',
      y_ref_id = Some ''-'', y_ref_gene_id = Some ''-''\<rparr>"

definition exons_fixture :: "exon list" where
  "exons_fixture = map (exon_of float_fixture) (filter is_exon rows_fixture)"

definition assembly_fixture :: "string list" where
  \<open>assembly_fixture = file_lines
     (''chr1 x transcript 100 449 . + . gene_id "G1"; transcript_id "T1";\<newline>'' @
      ''chr1 x exon 100 199 . + . gene_id "G1"; transcript_id "T1"; cov "2.5";\<newline>'' @
      ''chr1 x exon 300 449 . + . gene_id "G1"; transcript_id "T1"; cov "5.0";\<newline>'' @
      ''chr1 x exon 10 159 . + . gene_id "G0"; transcript_id "T0"; cov "5.0";\<newline>'' @
      ''chr1 x exon 200 259 . + . gene_id "G0"; transcript_id "T0"; cov "nan";\<newline>'')\<close>

section \<open>The comparison adapter\<close>

text \<open>
  The files the adapter sees: a path is a text, and at a path there is nothing, a
  regular file with its content, or a symbolic link with its target. Names without a
  slash are the entries of the working directory, and a link's target is looked up as
  the text it is. What \<^verbatim>\<open>os.remove\<close> cannot delete (a directory, an entry the
  process may not delete) is given by the predicate \<open>locked\<close> on names.
\<close>

datatype entry = Regular string | Symlink string

type_synonym fs = "string \<Rightarrow> entry option"

text \<open>
  Reading a path follows symbolic links, at most 40 of them; \<^verbatim>\<open>os.path.exists\<close> is
  true when the path can be followed to a file, so it is false for a dangling link.
\<close>

fun read_fuel :: "nat \<Rightarrow> fs \<Rightarrow> string \<Rightarrow> string option" where
  "read_fuel 0 files p = None"
| "read_fuel (Suc n) files p =
     (case files p of
        None \<Rightarrow> None
      | Some (Regular content) \<Rightarrow> Some content
      | Some (Symlink target) \<Rightarrow> read_fuel n files target)"

definition read_file :: "fs \<Rightarrow> string \<Rightarrow> string option" where
  "read_file files p = read_fuel 41 files p"


definition path_exists :: "fs \<Rightarrow> string \<Rightarrow> bool" where
  "path_exists files p = (read_file files p \<noteq> None)"

text \<open>
  \<^verbatim>\<open>os.symlink\<close> fails when the name is taken, \<^verbatim>\<open>os.remove\<close> when there is
  nothing to remove or the entry is locked, and \<^verbatim>\<open>open(p, 'w')\<close> leaves an empty
  file at the path.
\<close>

definition symlink :: "fs \<Rightarrow> string \<Rightarrow> string \<Rightarrow> error + fs" where
  "symlink files src dst =
     (if files dst \<noteq> None then Inl OSError else Inr (files(dst \<mapsto> Symlink src)))"

definition remove :: "(string \<Rightarrow> bool) \<Rightarrow> fs \<Rightarrow> string \<Rightarrow> error + fs" where
  "remove locked files p =
     (if files p = None \<or> locked p then Inl OSError else Inr (files(p := None)))"

definition open_w :: "fs \<Rightarrow> string \<Rightarrow> fs" where
  "open_w files p = files(p \<mapsto> Regular [])"



fun remove_each :: "(string \<Rightarrow> bool) \<Rightarrow> fs \<Rightarrow> string list \<Rightarrow> fs \<times> error option" where
  "remove_each locked files [] = (files, None)"
| "remove_each locked files (junk_file # rest) =
     (case remove locked files junk_file of
        Inl e \<Rightarrow> (files, Some e)
      | Inr files' \<Rightarrow> remove_each locked files' rest)"

text \<open>
  \<^verbatim>\<open>gtf.split('/')[-1]\<close> and the command line of the comparator.
\<close>

definition gtf_local_of :: "string \<Rightarrow> string" where
  "gtf_local_of gtf = last (split gtf ''/'')"

definition comparator_cmd :: "string \<Rightarrow> string \<Rightarrow> string" where
  "comparator_cmd ref_gtf gtf_local = ''cuffcompare -r '' @ ref_gtf @ '' '' @ gtf_local"

text \<open>
  The first step: a link to the query is made under its base name when nothing can be
  read at that name. The flag is \<^verbatim>\<open>symlink_created\<close>.
\<close>

definition link_query :: "fs \<Rightarrow> string \<Rightarrow> error + fs \<times> bool" where
  "link_query files gtf =
     (if \<not> path_exists files (gtf_local_of gtf)
      then (case symlink files gtf (gtf_local_of gtf) of
              Inl e \<Rightarrow> Inl e
            | Inr files' \<Rightarrow> Inr (files', True))
      else Inr (files, False))"

text \<open>
  Reading the comparator's table. The parsing of its text into rows with the three
  columns is the parameter \<open>parse\<close> (\<open>None\<close> when pandas rejects the text or a
  column is absent); the rows are then sorted by their index.
\<close>

definition read_tmap :: "(string \<Rightarrow> comparison_table option) \<Rightarrow> fs \<Rightarrow> string \<Rightarrow> error + comparison_table" where
  "read_tmap parse files p =
     (case read_file files p of
        None \<Rightarrow> Inl IOError
      | Some content \<Rightarrow>
          (case parse content of
             None \<Rightarrow> Inl ParserError
           | Some t \<Rightarrow> Inr (sort_key fst t)))"

text \<open>
  The last two steps, after the table is read.
\<close>

definition cleanup ::
  "(fs \<Rightarrow> string list) \<Rightarrow> (string \<Rightarrow> bool) \<Rightarrow> fs \<Rightarrow> bool \<Rightarrow> string \<Rightarrow> comparison_table \<Rightarrow>
   fs \<times> (error + comparison_table)" where
  "cleanup glob locked files symlink_created gtf_local class_codes =
     (case remove_each locked files (glob files) of
        (files', Some e) \<Rightarrow> (files', Inl e)
      | (files', None) \<Rightarrow>
          if symlink_created
          then (case remove locked files' gtf_local of
                  Inl e \<Rightarrow> (files', Inl e)
                | Inr files'' \<Rightarrow> (files'', Inr class_codes))
          else (files', Inr class_codes))"

text \<open>
  \<^verbatim>\<open>_get_cuffcompare_class_codes\<close>. The comparator is the parameter \<open>tool\<close>:
  from the command line and the files it finds to its exit status and the files it
  leaves. \<open>comparator_call\<close> is what happens before it runs and gives the command
  line and the files handed to it; an exception ends the function with the files as
  they are at that point.
\<close>

definition tmap_path :: "string \<Rightarrow> string" where
  "tmap_path gtf_local = ''cuffcmp.'' @ gtf_local @ ''.tmap''"

definition comparator_call :: "fs \<Rightarrow> string \<Rightarrow> string \<Rightarrow> error + string \<times> fs \<times> bool" where
  "comparator_call files ref_gtf gtf =
     (case link_query files gtf of
        Inl e \<Rightarrow> Inl e
      | Inr (files1, symlink_created) \<Rightarrow>
          Inr (comparator_cmd ref_gtf (gtf_local_of gtf),
               open_w (open_w files1 ''cuffcmp.stdout'') ''cuffcmp.stderr'',
               symlink_created))"

definition get_cuffcompare_class_codes ::
  "(string \<Rightarrow> fs \<Rightarrow> int \<times> fs) \<Rightarrow> (string \<Rightarrow> comparison_table option) \<Rightarrow>
   (fs \<Rightarrow> string list) \<Rightarrow> (string \<Rightarrow> bool) \<Rightarrow>
   fs \<Rightarrow> string \<Rightarrow> string \<Rightarrow> fs \<times> (error + comparison_table)" where
  "get_cuffcompare_class_codes tool parse glob locked files ref_gtf gtf =
     (case comparator_call files ref_gtf gtf of
        Inl e \<Rightarrow> (files, Inl e)
      | Inr (cmd, files2, symlink_created) \<Rightarrow>
          (let (status, files3) = tool cmd files2
           in if status \<noteq> 0 then (files3, Inl CalledProcessError)
              else (case read_tmap parse files3 (tmap_path (gtf_local_of gtf)) of
                      Inl e \<Rightarrow> (files3, Inl e)
                    | Inr class_codes \<Rightarrow>
                        cleanup glob locked files3 symlink_created (gtf_local_of gtf)
                          class_codes)))"

text \<open>
  A query outside the working directory, without and with another file of the same
  base name in the working directory; a comparator that succeeds and writes the content
  of the file it was given into its table, and one that fails; a listing of the names
  these comparators and the adapter write; nothing locked, and one log file locked.
\<close>

definition files_fixture :: fs where
  "files_fixture =
     [''/data/s1/transcripts.gtf'' \<mapsto> Regular ''mine'', ''ref.gtf'' \<mapsto> Regular ''reference'']"

definition files_shadow_fixture :: fs where
  "files_shadow_fixture = files_fixture(''transcripts.gtf'' \<mapsto> Regular ''other'')"

definition tool_ok_fixture :: "string \<Rightarrow> fs \<Rightarrow> int \<times> fs" where
  "tool_ok_fixture cmd files =
     (let q = last (split cmd '' '')
      in (0, files(''cuffcmp.'' @ q @ ''.tmap'' \<mapsto>
               Regular (case read_file files q of None \<Rightarrow> [] | Some c \<Rightarrow> c),
             ''cuffcmp.loci'' \<mapsto> Regular [])))"


definition parse_fixture :: "string \<Rightarrow> comparison_table option" where
  "parse_fixture content = Some [(content, cmp ''u'' ''-'')]"


definition query_fixture :: string where
  "query_fixture = ''/data/s1/transcripts.gtf''"



definition glob_fixture :: "fs \<Rightarrow> string list" where
  "glob_fixture files =
     filter (\<lambda>p. files p \<noteq> None)
       [''cuffcmp.stdout'', ''cuffcmp.stderr'', ''cuffcmp.loci'', ''cuffcmp.transcripts.gtf.tmap'']"

definition unlocked_fixture :: "string \<Rightarrow> bool" where
  "unlocked_fixture p = False"



section \<open>The catalog builder\<close>


text \<open>
  A row of an annotation file as \<^verbatim>\<open>pd.read_table(..., header=None)\<close> returns it:
  the nine columns 0 to 8, of which column 0 is the chromosome, 2 the feature, 3 the
  start and 8 the attribute text. The values of the chromosome column are of the type
  pandas infers for it (numbers when every name is a number, texts otherwise), here any
  type \<open>'c\<close> with its order. A row of the tables the builder works on keeps these
  columns and has the three extracted columns beside them; column 8 is dropped after
  the extraction and written anew at the end.
\<close>

record 'c raw_row =
  c0 :: 'c
  c1 :: string
  c2 :: cell
  c3 :: int
  c4 :: int
  c5 :: string
  c6 :: string
  c7 :: string
  c8 :: cell

record 'c catalog_row =
  cols :: "'c raw_row"
  gene_id :: cell
  transcript_id :: cell
  gene_name :: cell





































section \<open>Properties\<close>


subsection \<open>The line selector\<close>

lemma item1_error: "item1 xs = Inl e \<Longrightarrow> e = IndexError"
  by (cases xs rule: item1.cases) auto

lemma extract_attr_error: "extract_attr line key = Inl e \<Longrightarrow> e = IndexError"
  by (auto simp: extract_attr_def split: sum.splits dest: item1_error)

lemma filter_loop_char:
  "filter_loop keep out lines =
     (out @ filter (selected keep) (takeWhile readable lines),
      if \<forall>l \<in> set lines. readable l then None else Some IndexError)"
proof (induction lines arbitrary: out)
  case Nil
  show ?case by simp
next
  case (Cons line rest)
  show ?case
  proof (cases "skipped line")
    case True
    then show ?thesis using Cons.IH [of out] by (simp add: readable_def selected_def)
  next
    case False
    show ?thesis
    proof (cases "extract_attr line ''transcript_id''")
      case (Inl e)
      then have "e = IndexError" by (rule extract_attr_error)
      with Inl False show ?thesis by (simp add: readable_def)
    next
      case (Inr t)
      with False show ?thesis
        using Cons.IH [of "if t \<in> keep then out @ [line] else out"]
        by (simp add: readable_def selected_def)
    qed
  qed
qed

text \<open>
  C6, as the code has it. When every line of the input is skipped or carries a
  transcript id, the selector writes a line exactly when it is not skipped and its
  transcript id is in the keep-set: the output is the input filtered, the same strings
  in the order of the input. In general the selector reads up to the first line that is
  neither skipped nor carries a transcript id, and raises IndexError there.
\<close>

theorem line_selector_fidelity:
  "filter_gtf_by_transcript lines keep =
     (filter (selected keep) (takeWhile readable lines),
      if \<forall>l \<in> set lines. readable l then None else Some IndexError)
   \<and> ((\<forall>l \<in> set lines. readable l) \<longrightarrow>
        filter_gtf_by_transcript lines keep = (filter (selected keep) lines, None))"
proof (intro conjI impI)
  show eq: "filter_gtf_by_transcript lines keep =
     (filter (selected keep) (takeWhile readable lines),
      if \<forall>l \<in> set lines. readable l then None else Some IndexError)"
    using filter_loop_char [of keep "[]" lines]
    by (simp add: filter_gtf_by_transcript_def)
  assume all: "\<forall>l \<in> set lines. readable l"
  then have "takeWhile readable lines = lines"
    by (simp add: takeWhile_eq_all_conv)
  with eq all show "filter_gtf_by_transcript lines keep = (filter (selected keep) lines, None)"
    by simp
qed

theorem line_selector_fidelity_witness:
  \<open>map readable gtf_fixture = [True, True, True, True]
   \<and> filter_gtf_by_transcript gtf_fixture {''T1''}
     = ([''chr1 x exon 1 9 . + . gene_id "G1"; zz "1"; transcript_id "T1";\<newline>'',
         ''chr1 x exon 20 29 . + . gene_id "G1"; transcript_id "T1"''], None)\<close>
  using line_selector_fidelity [of gtf_fixture \<open>{''T1''}\<close>]
  by (simp add: gtf_fixture_def file_lines_def readable_def selected_def skipped_def
      extract_attr_def split_def)

text \<open>
  C6, as stated, fails: a line without a transcript id ends the run, and a later line
  whose transcript id is in the keep-set is not written.
\<close>

theorem line_selector_fidelity_counterexample:
  \<open>selected {''T1''} ''chr1 x exon 20 29 . + . gene_id "G1"; transcript_id "T1";\<newline>''
   \<and> ''chr1 x exon 20 29 . + . gene_id "G1"; transcript_id "T1";\<newline>''
       \<in> set gtf_malformed_fixture
   \<and> filter_gtf_by_transcript gtf_malformed_fixture {''T1''}
       = ([''chr1 x exon 1 9 . + . gene_id "G1"; transcript_id "T1";\<newline>''], Some IndexError)
   \<and> ''chr1 x exon 20 29 . + . gene_id "G1"; transcript_id "T1";\<newline>''
       \<notin> set [''chr1 x exon 1 9 . + . gene_id "G1"; transcript_id "T1";\<newline>'']\<close>
  by (simp add: gtf_malformed_fixture_def filter_gtf_by_transcript_def file_lines_def
      selected_def skipped_def extract_attr_def split_def)

text \<open>
  C7. An empty line of the file reaches the loop as the one-character string of its
  line end, so the test \<^verbatim>\<open>len(line) == 0\<close> does not hold for it and the
  extraction of the transcript id raises IndexError: the selector stops at the empty
  line, with only the lines before it written.
\<close>

theorem line_selector_empty_line_fails:
  \<open>filter_gtf_by_transcript gtf_blank_fixture {''T1''}
     = ([''chr1 x exon 1 9 . + . gene_id "G1"; transcript_id "T1";\<newline>''], Some IndexError)\<close>
  by (simp add: gtf_blank_fixture_def filter_gtf_by_transcript_def file_lines_def skipped_def
      extract_attr_def split_def)

subsection \<open>The classifier\<close>

lemma joined_row_unset: "unset (joined_row a b)"
  by (simp add: unset_def joined_row_def)

lemma join_rows: "(k, r) \<in> set (join_suffix l r') \<Longrightarrow> \<exists>a b. r = joined_row a b"
  by (auto simp: join_suffix_def)

lemma join_unset: "(k, r) \<in> set (join_suffix l r') \<Longrightarrow> unset r"
  using join_rows joined_row_unset by blast

lemma unset_upd: "unset (r\<lparr>classification := l\<rparr>) = (l = ''.'')"
  by (simp add: unset_def)

lemma rule_upd:
  "rule1 (r\<lparr>classification := l\<rparr>) = rule1 r"
  "rule2 (r\<lparr>classification := l\<rparr>) = rule2 r"
  "rule3 (r\<lparr>classification := l\<rparr>) = rule3 r"
  "rule4 (r\<lparr>classification := l\<rparr>) = rule4 r"
  "rule5 (r\<lparr>classification := l\<rparr>) = rule5 r"
  "rule6 (r\<lparr>classification := l\<rparr>) = rule6 r"
  by (simp_all add: rule1_def rule2_def rule3_def rule4_def rule5_def rule6_def)

lemma loc_assign_map: "loc_assign c l x = map (\<lambda>(k, r). (k, assign c l r)) x"
  by (simp add: loc_assign_def assign_def)

lemma assign_miss: "\<not> c r \<Longrightarrow> assign (\<lambda>r. unset r \<and> c r) l r = r"
  by (simp add: assign_def)

lemma assign_done: "\<not> unset r \<Longrightarrow> assign (\<lambda>r. unset r \<and> c r) l r = r"
  by (simp add: assign_def)

lemma assign_done_last: "\<not> unset r \<Longrightarrow> assign unset l r = r"
  by (simp add: assign_def)

lemma assign_hit: "unset r \<Longrightarrow> c r \<Longrightarrow> assign (\<lambda>r. unset r \<and> c r) l r = r\<lparr>classification := l\<rparr>"
  by (simp add: assign_def)

lemma assign_hit_last: "unset r \<Longrightarrow> assign unset l r = r\<lparr>classification := l\<rparr>"
  by (simp add: assign_def)

lemma labelled:
  "\<not> unset (r\<lparr>classification := ''known_isoform''\<rparr>)"
  "\<not> unset (r\<lparr>classification := ''possible_artifact''\<rparr>)"
  "\<not> unset (r\<lparr>classification := ''novel_isoform''\<rparr>)"
  "\<not> unset (r\<lparr>classification := ''intergenic''\<rparr>)"
  "\<not> unset (r\<lparr>classification := ''antisense''\<rparr>)"
  "\<not> unset (r\<lparr>classification := ''intronic''\<rparr>)"
  "\<not> unset (r\<lparr>classification := ''not_a_lncRNA''\<rparr>)"
  by (simp_all add: unset_def)

lemma steps_row:
  assumes u: "unset r"
  shows "steps r = relabel r"
proof (cases "rule1 r")
  case True
  then show ?thesis using u
    by (simp add: steps_def assign_hit assign_done assign_done_last labelled relabel_def first_match_def)
next
  case n1: False
  show ?thesis
  proof (cases "rule2 r")
    case True
    then show ?thesis using u n1
      by (simp add: steps_def assign_miss assign_hit assign_done assign_done_last labelled relabel_def first_match_def)
  next
    case n2: False
    show ?thesis
    proof (cases "rule3 r")
      case True
      then show ?thesis using u n1 n2
        by (simp add: steps_def assign_miss assign_hit assign_done assign_done_last labelled relabel_def first_match_def)
    next
      case n3: False
      show ?thesis
      proof (cases "rule4 r")
        case True
        then show ?thesis using u n1 n2 n3
          by (simp add: steps_def assign_miss assign_hit assign_done assign_done_last labelled relabel_def first_match_def)
      next
        case n4: False
        show ?thesis
        proof (cases "rule5 r")
          case True
          then show ?thesis using u n1 n2 n3 n4
            by (simp add: steps_def assign_miss assign_hit assign_done assign_done_last labelled relabel_def first_match_def)
        next
          case n5: False
          show ?thesis
          proof (cases "rule6 r")
            case True
            then show ?thesis using u n1 n2 n3 n4 n5
              by (simp add: steps_def assign_miss assign_hit assign_done assign_done_last labelled relabel_def first_match_def)
          next
            case n6: False
            then show ?thesis using u n1 n2 n3 n4 n5
              by (simp add: steps_def assign_miss assign_hit_last relabel_def first_match_def)
          qed
        qed
      qed
    qed
  qed
qed

lemma classify_map:
  "classify_novel_transcripts a b = map (\<lambda>(k, r). (k, relabel r)) (join_suffix a b)"
proof -
  have "\<And>k r. (k, r) \<in> set (join_suffix a b) \<Longrightarrow> unset r" using join_unset by auto
  then show ?thesis
    unfolding classify_novel_transcripts_def Let_def loc_assign_map map_map
    by (intro map_cong refl) (auto simp: steps_row [unfolded steps_def])
qed

lemma rule2_not_rule1: "rule2 r \<Longrightarrow> \<not> rule1 r"
  by (auto simp: rule1_def rule2_def cell_eq_def)

text \<open>
  C1. The seven assignments label every joined record by the first rule of the order
  1 to 7 that matches it. So a record matching rule 1 is \<open>known_isoform\<close> whatever
  the later rules say (rule 3 included: its condition and that of rule 1 read the same
  cell), a record matching rules 2 and 3 is \<open>possible_artifact\<close>, and a record
  matching none of the rules 1 to 6 is \<open>not_a_lncRNA\<close>.
\<close>

theorem classification_priority:
  "classify_novel_transcripts a b =
     map (\<lambda>(k, r). (k, r\<lparr>classification := first_match r\<rparr>)) (join_suffix a b)
   \<and> (\<forall>(k, r) \<in> set (classify_novel_transcripts a b).
        classification r = first_match r
        \<and> (rule1 r \<longrightarrow> classification r = ''known_isoform'')
        \<and> (rule2 r \<and> rule3 r \<longrightarrow> classification r = ''possible_artifact'')
        \<and> (\<not> rule1 r \<and> \<not> rule2 r \<and> \<not> rule3 r \<and> \<not> rule4 r \<and> \<not> rule5 r \<and> \<not> rule6 r
             \<longrightarrow> classification r = ''not_a_lncRNA''))"
proof (intro conjI)
  show eq: "classify_novel_transcripts a b =
     map (\<lambda>(k, r). (k, r\<lparr>classification := first_match r\<rparr>)) (join_suffix a b)"
    using classify_map [of a b] by (simp add: relabel_def)
  show "\<forall>(k, r) \<in> set (classify_novel_transcripts a b).
        classification r = first_match r
        \<and> (rule1 r \<longrightarrow> classification r = ''known_isoform'')
        \<and> (rule2 r \<and> rule3 r \<longrightarrow> classification r = ''possible_artifact'')
        \<and> (\<not> rule1 r \<and> \<not> rule2 r \<and> \<not> rule3 r \<and> \<not> rule4 r \<and> \<not> rule5 r \<and> \<not> rule6 r
             \<longrightarrow> classification r = ''not_a_lncRNA'')"
  proof (clarify)
    fix k r
    assume "(k, r) \<in> set (classify_novel_transcripts a b)"
    then obtain r0 where r: "r = r0\<lparr>classification := first_match r0\<rparr>"
      unfolding eq by auto
    have fm: "first_match r = first_match r0"
      by (simp add: r first_match_def rule_upd)
    have c: "classification r = first_match r"
      by (simp add: fm) (simp add: r)
    show "classification r = first_match r
        \<and> (rule1 r \<longrightarrow> classification r = ''known_isoform'')
        \<and> (rule2 r \<and> rule3 r \<longrightarrow> classification r = ''possible_artifact'')
        \<and> (\<not> rule1 r \<and> \<not> rule2 r \<and> \<not> rule3 r \<and> \<not> rule4 r \<and> \<not> rule5 r \<and> \<not> rule6 r
             \<longrightarrow> classification r = ''not_a_lncRNA'')"
      using rule2_not_rule1 [of r] unfolding c by (auto simp: first_match_def)
  qed
qed

theorem classification_priority_witness:
  "map (\<lambda>(k, r). (k, rule1 r, rule2 r \<and> rule3 r,
         \<not> rule1 r \<and> \<not> rule2 r \<and> \<not> rule3 r \<and> \<not> rule4 r \<and> \<not> rule5 r \<and> \<not> rule6 r,
         classification r))
     (classify_novel_transcripts ref_fixture lnc_fixture)
   = [(''T1'', True, False, False, ''known_isoform''),
      (''T2'', False, True, False, ''possible_artifact''),
      (''T3'', False, False, True, ''not_a_lncRNA'')]"
  using classification_priority [of ref_fixture lnc_fixture]
  by (simp add: ref_fixture_def lnc_fixture_def cmp_def join_suffix_def left_join_def join_one_def
      joined_row_def first_match_def rule1_def rule2_def rule3_def rule4_def rule5_def
      rule6_def cell_eq_def cell_ne_def)

text \<open>
  C2. Every record the classifier produces carries exactly one of the seven labels,
  which are pairwise different; the classifier neither drops nor adds a record.
\<close>

theorem classification_exhaustive_exclusive:
  "distinct labels \<and> length labels = 7
   \<and> (\<forall>(k, r) \<in> set (classify_novel_transcripts a b).
        \<exists>!l. l \<in> set labels \<and> classification r = l)
   \<and> map fst (classify_novel_transcripts a b) = map fst (join_suffix a b)"
proof (intro conjI)
  show "distinct labels" by (simp add: labels_def)
  show "length labels = 7" by (simp add: labels_def)
  have fm: "\<And>r. first_match r \<in> set labels"
    by (simp add: first_match_def labels_def)
  show "\<forall>(k, r) \<in> set (classify_novel_transcripts a b).
        \<exists>!l. l \<in> set labels \<and> classification r = l"
    using fm by (auto simp: classify_map relabel_def)
  show "map fst (classify_novel_transcripts a b) = map fst (join_suffix a b)"
    by (simp add: classify_map case_prod_unfold)
qed

theorem classification_exhaustive_exclusive_witness:
  "map (\<lambda>(k, r). (k, classification r, classification r \<in> set labels))
     (classify_novel_transcripts ref_fixture lnc_fixture)
   = [(''T1'', ''known_isoform'', True), (''T2'', ''possible_artifact'', True),
      (''T3'', ''not_a_lncRNA'', True)]"
  using classification_exhaustive_exclusive [of ref_fixture lnc_fixture]
    classify_map [of ref_fixture lnc_fixture]
  by (simp add: ref_fixture_def lnc_fixture_def cmp_def join_suffix_def left_join_def join_one_def
      joined_row_def relabel_def first_match_def rule1_def rule2_def rule3_def rule4_def
      rule5_def rule6_def cell_eq_def cell_ne_def labels_def)

subsection \<open>The transcript aggregator\<close>









lemma fle_not_NaN: "fle a b \<Longrightarrow> a \<noteq> NaN \<and> b \<noteq> NaN"
  by (cases a; cases b) auto






lemma exon_rows_ok:
  "list_all (cov_ok f) rs \<Longrightarrow> exon_rows f rs = Inr (map (exon_of f) rs)"
proof (induction rs)
  case Nil
  show ?case by simp
next
  case (Cons r rs)
  then have ok: "cov_ok f r" and rest: "list_all (cov_ok f) rs" by simp_all
  from ok obtain c where c: "astype_float f (str_get (attrs r) ''cov'') = Inr c"
    by (cases "astype_float f (str_get (attrs r) ''cov'')") (auto simp: cov_ok_def)
  then have "c = read_cov f r"
    by (simp add: read_cov_def)
  with c Cons.IH [OF rest] show ?case by (simp add: exon_of_def)
qed

lemma exon_rows_fail:
  "\<not> list_all (cov_ok f) rs \<Longrightarrow> exon_rows f rs = Inl ValueError"
proof (induction rs)
  case Nil
  then show ?case by simp
next
  case (Cons r rs)
  show ?case
  proof (cases "cov_ok f r")
    case True
    with Cons have "exon_rows f rs = Inl ValueError" by simp
    moreover from True obtain c where "astype_float f (str_get (attrs r) ''cov'') = Inr c"
      by (cases "astype_float f (str_get (attrs r) ''cov'')") (auto simp: cov_ok_def)
    ultimately show ?thesis by simp
  next
    case False
    then have "astype_float f (str_get (attrs r) ''cov'') = Inl ValueError"
      by (auto simp: cov_ok_def astype_float_def split: option.splits)
    then show ?thesis by simp
  qed
qed

lemma exon_rows_Inr:
  "exon_rows f rs = Inr x \<Longrightarrow> list_all (cov_ok f) rs \<and> x = map (exon_of f) rs"
  using exon_rows_ok [of f rs] exon_rows_fail [of f rs] by (cases "list_all (cov_ok f) rs") auto


lemma set_groupby_keys: "t \<in> set (groupby_keys x) \<longleftrightarrow> group x t \<noteq> []"
  by (force simp: groupby_keys_def group_def map_filter_def filter_empty_conv image_iff)












subsection \<open>The novelty filter\<close>

lemma join_one_iff:
  "(k, a, b) \<in> set (join_one r ka) \<longleftrightarrow>
     k = fst ka \<and> a = snd ka
     \<and> ((b = None \<and> k \<notin> fst ` set r) \<or> (\<exists>v. b = Some v \<and> (k, v) \<in> set r))"
proof (cases "filter (\<lambda>kb. fst kb = fst ka) r")
  case Nil
  then have "fst ka \<notin> fst ` set r"
    by (auto simp: filter_empty_conv)
  with Nil show ?thesis by (force simp: join_one_def)
next
  case (Cons m ms)
  have s: "set (m # ms) = {kb \<in> set r. fst kb = fst ka}"
    unfolding Cons [symmetric] by simp
  then have "m \<in> set r" and "fst m = fst ka" by auto
  then have i: "fst ka \<in> fst ` set r" by force
  have "(k, a, b) \<in> set (join_one r ka) \<longleftrightarrow>
      (\<exists>kb \<in> set (m # ms). k = fst ka \<and> a = snd ka \<and> b = Some (snd kb))"
    by (auto simp: join_one_def Cons)
  also have "\<dots> \<longleftrightarrow> k = fst ka \<and> a = snd ka \<and> (\<exists>v. b = Some v \<and> (k, v) \<in> set r)"
    unfolding s by force
  finally show ?thesis using i by auto
qed

lemma left_join_iff:
  "(k, a, b) \<in> set (left_join l r) \<longleftrightarrow>
     (k, a) \<in> set l
     \<and> ((b = None \<and> k \<notin> fst ` set r) \<or> (\<exists>v. b = Some v \<and> (k, v) \<in> set r))"
proof -
  have "(k, a, b) \<in> set (left_join l r) \<longleftrightarrow> (\<exists>ka \<in> set l. (k, a, b) \<in> set (join_one r ka))"
    by (simp add: left_join_def)
  also have "\<dots> \<longleftrightarrow> (\<exists>ka \<in> set l. k = fst ka \<and> a = snd ka
     \<and> ((b = None \<and> k \<notin> fst ` set r) \<or> (\<exists>v. b = Some v \<and> (k, v) \<in> set r)))"
    by (simp only: join_one_iff)
  also have "\<dots> \<longleftrightarrow> (k, a) \<in> set l
     \<and> ((b = None \<and> k \<notin> fst ` set r) \<or> (\<exists>v. b = Some v \<and> (k, v) \<in> set r))"
    by force
  finally show ?thesis .
qed

lemma keyed_mem: "(k, a) \<in> set (map (\<lambda>t. (t, g t)) ks) \<longleftrightarrow> k \<in> set ks \<and> a = g k"
  by auto

lemma keyed_fst: "k \<in> fst ` set (map (\<lambda>t. (t, g t)) ks) \<longleftrightarrow> k \<in> set ks"
  by force

lemma joined3_iff:
  "(k, s, m) \<in> set (left_join (left_join (left_join (t_length x) (t_num_exons x)) (t_coverage x)) cc)
   \<longleftrightarrow> k \<in> set (groupby_keys x)
     \<and> s = ((agg_length x k, Some (agg_exons x k)), Some (agg_coverage x k))
     \<and> ((m = None \<and> k \<notin> fst ` set cc) \<or> (\<exists>v. m = Some v \<and> (k, v) \<in> set cc))"
proof -
  obtain l n c where s: "s = ((l, n), c)" by (metis surj_pair)
  have tl: "\<And>a. (k, a) \<in> set (t_length x) \<longleftrightarrow> k \<in> set (groupby_keys x) \<and> a = agg_length x k"
    unfolding t_length_def by (rule keyed_mem)
  have tn: "\<And>a. (k, a) \<in> set (t_num_exons x) \<longleftrightarrow> k \<in> set (groupby_keys x) \<and> a = agg_exons x k"
    unfolding t_num_exons_def by (rule keyed_mem)
  have tc: "\<And>a. (k, a) \<in> set (t_coverage x) \<longleftrightarrow> k \<in> set (groupby_keys x) \<and> a = agg_coverage x k"
    unfolding t_coverage_def by (rule keyed_mem)
  have fn: "k \<in> fst ` set (t_num_exons x) \<longleftrightarrow> k \<in> set (groupby_keys x)"
    unfolding t_num_exons_def by (rule keyed_fst)
  have fc: "k \<in> fst ` set (t_coverage x) \<longleftrightarrow> k \<in> set (groupby_keys x)"
    unfolding t_coverage_def by (rule keyed_fst)
  have j1: "(k, l, n) \<in> set (left_join (t_length x) (t_num_exons x))
      \<longleftrightarrow> k \<in> set (groupby_keys x) \<and> l = agg_length x k \<and> n = Some (agg_exons x k)"
    unfolding left_join_iff tl tn fn by auto
  have j2: "(k, (l, n), c) \<in> set (left_join (left_join (t_length x) (t_num_exons x)) (t_coverage x))
      \<longleftrightarrow> k \<in> set (groupby_keys x) \<and> l = agg_length x k \<and> n = Some (agg_exons x k)
          \<and> c = Some (agg_coverage x k)"
    unfolding left_join_iff [of k "(l, n)" c] j1 tc fc by auto
  show ?thesis
    unfolding s left_join_iff [of k "((l, n), c)" m] j2 by auto
qed

lemma novel_index_iff:
  "k \<in> set (novel_index (summary_table x cc)) \<longleftrightarrow>
     group x k \<noteq> []
     \<and> agg_length x k \<ge> 200
     \<and> agg_exons x k > 1
     \<and> fle (Fin 3) (agg_coverage x k)
     \<and> (\<exists>m. (k, m) \<in> set cc
          \<and> (\<exists>c. class_code m = Some c \<and> c \<in> {''u'', ''j'', ''i'', ''x''}))"
proof -
  let ?s = "((agg_length x k, Some (agg_exons x k)), Some (agg_coverage x k))"
  have "k \<in> set (novel_index (summary_table x cc)) \<longleftrightarrow>
      (\<exists>s m. (k, s, m) \<in> set (left_join (left_join (left_join (t_length x) (t_num_exons x))
          (t_coverage x)) cc) \<and> passes (summary_row s m))"
    by (force simp: novel_index_def summary_table_def)
  also have "\<dots> \<longleftrightarrow> k \<in> set (groupby_keys x)
      \<and> (\<exists>m. ((m = None \<and> k \<notin> fst ` set cc) \<or> (\<exists>v. m = Some v \<and> (k, v) \<in> set cc))
            \<and> passes (summary_row ?s m))"
    unfolding joined3_iff by blast
  also have "\<dots> \<longleftrightarrow> k \<in> set (groupby_keys x)
      \<and> (\<exists>v. (k, v) \<in> set cc \<and> passes (summary_row ?s (Some v)))"
  proof -
    have "\<not> passes (summary_row ?s None)"
      by (simp add: passes_def summary_row_def)
    then show ?thesis by (metis option.exhaust option.distinct(1) option.inject)
  qed
  also have "\<dots> \<longleftrightarrow> group x k \<noteq> []
     \<and> agg_length x k \<ge> 200
     \<and> agg_exons x k > 1
     \<and> fle (Fin 3) (agg_coverage x k)
     \<and> (\<exists>m. (k, m) \<in> set cc
          \<and> (\<exists>c. class_code m = Some c \<and> c \<in> {''u'', ''j'', ''i'', ''x''}))"
    unfolding set_groupby_keys
    by (auto simp: passes_def summary_row_def split: option.splits)
  finally show ?thesis .
qed


lemma find_novel_Inr:
  assumes "find_novel_transcripts float_of rows gtf_in cc = Inr (y, out)"
  shows "list_all (cov_ok float_of) (filter is_exon rows)
     \<and> y = summary_table (map (exon_of float_of) (filter is_exon rows)) cc
     \<and> out = filter_gtf_by_transcript gtf_in (set (novel_index y))"
proof (cases "exon_rows float_of (filter is_exon rows)")
  case (Inl e)
  with assms show ?thesis by (simp add: find_novel_transcripts_def)
next
  case (Inr x)
  from exon_rows_Inr [OF Inr] Inr assms show ?thesis
    by (auto simp: find_novel_transcripts_def Let_def)
qed

text \<open>
  C3. A transcript id is in the output of the filter, computed on the table the code
  joins, exactly when the transcript has exon rows, their summed length is at least 200,
  they are more than one, their greatest coverage is at least 3.0 and the comparison
  table has a row for the transcript with a class code among u, j, i, x. This output is
  the keep-set \<^verbatim>\<open>find_novel_transcripts\<close> gives to the line selector. Each of
  the four conditions is necessary: a row that passes fails as soon as one of them is
  made false. A transcript for which the comparison table has no row is not in the
  output.
\<close>

theorem novelty_filter_conjunction:
  "(k \<in> set (novel_index (summary_table x t_class_code)) \<longleftrightarrow>
      group x k \<noteq> []
      \<and> agg_length x k \<ge> 200
      \<and> agg_exons x k > 1
      \<and> fle (Fin 3) (agg_coverage x k)
      \<and> (\<exists>m. (k, m) \<in> set t_class_code
           \<and> (\<exists>c. class_code m = Some c \<and> c \<in> {''u'', ''j'', ''i'', ''x''})))
   \<and> (find_novel_transcripts float_of rows gtf_in t_class_code = Inr (y, out) \<longrightarrow>
        y = summary_table (map (exon_of float_of) (filter is_exon rows)) t_class_code
        \<and> out = filter_gtf_by_transcript gtf_in (set (novel_index y)))
   \<and> (passes r \<longrightarrow>
        (l < 200 \<longrightarrow> \<not> passes (r\<lparr>y_length := l\<rparr>))
      \<and> (n \<le> 1 \<longrightarrow> \<not> passes (r\<lparr>y_exons := Some n\<rparr>))
      \<and> (\<not> fle (Fin 3) c \<longrightarrow> \<not> passes (r\<lparr>y_coverage := c\<rparr>))
      \<and> (cc \<notin> {''u'', ''j'', ''i'', ''x''} \<longrightarrow> \<not> passes (r\<lparr>y_class_code := Some cc\<rparr>)))
   \<and> (k \<notin> fst ` set t_class_code \<longrightarrow> k \<notin> set (novel_index (summary_table x t_class_code)))"
proof (intro conjI)
  show "k \<in> set (novel_index (summary_table x t_class_code)) \<longleftrightarrow>
      group x k \<noteq> []
      \<and> agg_length x k \<ge> 200
      \<and> agg_exons x k > 1
      \<and> fle (Fin 3) (agg_coverage x k)
      \<and> (\<exists>m. (k, m) \<in> set t_class_code
           \<and> (\<exists>c. class_code m = Some c \<and> c \<in> {''u'', ''j'', ''i'', ''x''}))"
    by (rule novel_index_iff)
  show "find_novel_transcripts float_of rows gtf_in t_class_code = Inr (y, out) \<longrightarrow>
        y = summary_table (map (exon_of float_of) (filter is_exon rows)) t_class_code
        \<and> out = filter_gtf_by_transcript gtf_in (set (novel_index y))"
    using find_novel_Inr by blast
  show "passes r \<longrightarrow>
        (l < 200 \<longrightarrow> \<not> passes (r\<lparr>y_length := l\<rparr>))
      \<and> (n \<le> 1 \<longrightarrow> \<not> passes (r\<lparr>y_exons := Some n\<rparr>))
      \<and> (\<not> fle (Fin 3) c \<longrightarrow> \<not> passes (r\<lparr>y_coverage := c\<rparr>))
      \<and> (cc \<notin> {''u'', ''j'', ''i'', ''x''} \<longrightarrow> \<not> passes (r\<lparr>y_class_code := Some cc\<rparr>))"
    by (simp add: passes_def)
  show "k \<notin> fst ` set t_class_code \<longrightarrow> k \<notin> set (novel_index (summary_table x t_class_code))"
    unfolding novel_index_iff by force
qed

theorem novelty_filter_conjunction_witness:
  \<open>''T1'' \<in> set (novel_index (summary_table exons_fixture [(''T1'', cmp ''j'' ''A'')]))
   \<and> ''T0'' \<notin> set (novel_index (summary_table exons_fixture [(''T1'', cmp ''j'' ''A'')]))
   \<and> find_novel_transcripts float_fixture rows_fixture assembly_fixture [(''T1'', cmp ''j'' ''A'')]
       = Inr (summary_table exons_fixture [(''T1'', cmp ''j'' ''A'')],
              [''chr1 x transcript 100 449 . + . gene_id "G1"; transcript_id "T1";\<newline>'',
               ''chr1 x exon 100 199 . + . gene_id "G1"; transcript_id "T1"; cov "2.5";\<newline>'',
               ''chr1 x exon 300 449 . + . gene_id "G1"; transcript_id "T1"; cov "5.0";\<newline>''],
              None)
   \<and> passes summary_fixture
   \<and> \<not> passes (summary_fixture\<lparr>y_length := 199\<rparr>)
   \<and> \<not> passes (summary_fixture\<lparr>y_exons := Some 1\<rparr>)
   \<and> \<not> passes (summary_fixture\<lparr>y_coverage := Fin (299 / 100)\<rparr>)
   \<and> \<not> passes (summary_fixture\<lparr>y_class_code := Some ''=''\<rparr>)\<close>
proof -
  have g: "group exons_fixture ''T1'' \<noteq> []"
    and l: "agg_length exons_fixture ''T1'' \<ge> 200"
    and n: "agg_exons exons_fixture ''T1'' > 1"
    and c: "fle (Fin 3) (agg_coverage exons_fixture ''T1'')"
    by code_simp+
  have m: "(''T1'', cmp ''j'' ''A'') \<in> set [(''T1'', cmp ''j'' ''A'')]
      \<and> class_code (cmp ''j'' ''A'') = Some ''j''"
    by (simp add: cmp_def)
  have k: "''T0'' \<notin> fst ` set [(''T1'', cmp ''j'' ''A'')]"
    by simp
  have f: \<open>find_novel_transcripts float_fixture rows_fixture assembly_fixture [(''T1'', cmp ''j'' ''A'')]
       = Inr (summary_table exons_fixture [(''T1'', cmp ''j'' ''A'')],
              [''chr1 x transcript 100 449 . + . gene_id "G1"; transcript_id "T1";\<newline>'',
               ''chr1 x exon 100 199 . + . gene_id "G1"; transcript_id "T1"; cov "2.5";\<newline>'',
               ''chr1 x exon 300 449 . + . gene_id "G1"; transcript_id "T1"; cov "5.0";\<newline>''],
              None)\<close>
    by code_simp
  have p: "passes summary_fixture"
    by (simp add: passes_def summary_fixture_def)
  have t1: "''T1'' \<in> set (novel_index (summary_table exons_fixture [(''T1'', cmp ''j'' ''A'')]))"
    using novelty_filter_conjunction [of "''T1''" exons_fixture "[(''T1'', cmp ''j'' ''A'')]"]
      g l n c m by blast
  have t0: "''T0'' \<notin> set (novel_index (summary_table exons_fixture [(''T1'', cmp ''j'' ''A'')]))"
    using novelty_filter_conjunction [of "''T0''" exons_fixture "[(''T1'', cmp ''j'' ''A'')]"]
      k by blast
  have nec: "\<not> passes (summary_fixture\<lparr>y_length := 199\<rparr>)
      \<and> \<not> passes (summary_fixture\<lparr>y_exons := Some 1\<rparr>)
      \<and> \<not> passes (summary_fixture\<lparr>y_coverage := Fin (299 / 100)\<rparr>)
      \<and> \<not> passes (summary_fixture\<lparr>y_class_code := Some ''=''\<rparr>)"
    using p novelty_filter_conjunction [of _ _ _ _ _ _ _ _ summary_fixture 199 1 "Fin (299 / 100)" "''=''"]
    by simp
  from t1 t0 f p nec show ?thesis by (intro conjI) simp_all
qed

subsection \<open>The comparison adapter\<close>


lemma remove_each_ok:
  assumes "distinct names" and "\<forall>p \<in> set names. files p \<noteq> None \<and> \<not> locked p"
  shows "remove_each locked files names = (\<lambda>p. if p \<in> set names then None else files p, None)"
  using assms
proof (induction names arbitrary: files)
  case Nil
  show ?case by simp
next
  case (Cons a names)
  let ?f = "files(a := None)"
  from Cons.prems have r: "remove locked files a = Inr ?f"
    by (simp add: remove_def)
  from Cons.prems have d: "distinct names" and n: "a \<notin> set names" by simp_all
  from Cons.prems n have "\<forall>p \<in> set names. ?f p \<noteq> None \<and> \<not> locked p" by auto
  from Cons.IH [OF d this]
  have "remove_each locked ?f names = (\<lambda>p. if p \<in> set names then None else ?f p, None)" .
  moreover have "(\<lambda>p. if p \<in> set names then None else ?f p)
               = (\<lambda>p. if p \<in> set (a # names) then None else files p)"
    by (rule ext) simp
  ultimately show ?case using r by simp
qed







text \<open>
  C10. When something can be read at the query's base name in the working directory,
  no link is made, and the comparator is run on that name with the files as they were
  (the two log files apart): it reads the file already there, whatever the query path
  names.
\<close>

theorem adapter_uses_local_file:
  assumes "path_exists files (gtf_local_of gtf)"
  shows "\<exists>files2. comparator_call files ref_gtf gtf
            = Inr (''cuffcompare -r '' @ ref_gtf @ '' '' @ gtf_local_of gtf, files2, False)
          \<and> (\<forall>p. p \<notin> {''cuffcmp.stdout'', ''cuffcmp.stderr''} \<longrightarrow> files2 p = files p)"
  using assms
  by (simp add: comparator_call_def link_query_def comparator_cmd_def open_w_def)

lemma read_fuel_numeral:
  "read_fuel (numeral k) files p =
     (case files p of
        None \<Rightarrow> None
      | Some (Regular content) \<Rightarrow> Some content
      | Some (Symlink target) \<Rightarrow> read_fuel (pred_numeral k) files target)"
  by (simp add: numeral_eq_Suc)

lemma gtf_local_fixture: "gtf_local_of query_fixture = ''transcripts.gtf''"
  by (simp add: gtf_local_of_def query_fixture_def split_def)











lemma shadow_exists: "path_exists files_shadow_fixture (gtf_local_of query_fixture)"
  by (simp add: gtf_local_fixture path_exists_def read_file_def read_fuel_numeral
      files_shadow_fixture_def)

theorem adapter_uses_local_file_witness:
  "path_exists files_shadow_fixture (gtf_local_of query_fixture)
   \<and> read_file files_shadow_fixture query_fixture = Some ''mine''
   \<and> read_file files_shadow_fixture (gtf_local_of query_fixture) = Some ''other''
   \<and> (\<exists>files2. comparator_call files_shadow_fixture ''ref.gtf'' query_fixture
          = Inr (''cuffcompare -r ref.gtf transcripts.gtf'', files2, False)
        \<and> files2 ''transcripts.gtf'' = Some (Regular ''other''))
   \<and> snd (get_cuffcompare_class_codes tool_ok_fixture parse_fixture glob_fixture unlocked_fixture
          files_shadow_fixture ''ref.gtf'' query_fixture) = Inr [(''other'', cmp ''u'' ''-'')]"
proof -
  from adapter_uses_local_file [OF shadow_exists, of "''ref.gtf''"]
  obtain files2 where
    c: "comparator_call files_shadow_fixture ''ref.gtf'' query_fixture
          = Inr (''cuffcompare -r ref.gtf transcripts.gtf'', files2, False)"
    and f: "\<forall>p. p \<notin> {''cuffcmp.stdout'', ''cuffcmp.stderr''} \<longrightarrow> files2 p = files_shadow_fixture p"
    by (auto simp: gtf_local_fixture)
  have f2: "files2 ''transcripts.gtf'' = Some (Regular ''other'')"
    using f by (simp add: files_shadow_fixture_def)
  have rd: "read_file files2 ''transcripts.gtf'' = Some ''other''"
    by (simp add: read_file_def read_fuel_numeral f2)
  define files3 where "files3 = files2(''cuffcmp.transcripts.gtf.tmap'' \<mapsto> Regular ''other'',
                 ''cuffcmp.loci'' \<mapsto> Regular [])"
  have t: "tool_ok_fixture ''cuffcompare -r ref.gtf transcripts.gtf'' files2 = (0, files3)"
    by (simp add: tool_ok_fixture_def split_def Let_def rd files3_def)
  have r: "read_tmap parse_fixture files3 (tmap_path ''transcripts.gtf'')
      = Inr [(''other'', cmp ''u'' ''-'')]"
    by (simp add: tmap_path_def read_tmap_def read_file_def read_fuel_numeral parse_fixture_def
        files3_def)
  have p: "\<forall>p \<in> set (glob_fixture files3). files3 p \<noteq> None \<and> \<not> unlocked_fixture p"
    by (simp add: glob_fixture_def unlocked_fixture_def del: not_None_eq)
  have d: "distinct (glob_fixture files3)"
    by (simp add: glob_fixture_def)
  have cl: "snd (cleanup glob_fixture unlocked_fixture files3 False ''transcripts.gtf''
              [(''other'', cmp ''u'' ''-'')]) = Inr [(''other'', cmp ''u'' ''-'')]"
    by (simp add: cleanup_def remove_each_ok [OF d p])
  have g: "snd (get_cuffcompare_class_codes tool_ok_fixture parse_fixture glob_fixture
             unlocked_fixture files_shadow_fixture ''ref.gtf'' query_fixture)
         = Inr [(''other'', cmp ''u'' ''-'')]"
    by (simp add: get_cuffcompare_class_codes_def c t r gtf_local_fixture cl)
  have m: "read_file files_shadow_fixture query_fixture = Some ''mine''"
    by (simp add: read_file_def read_fuel_numeral files_shadow_fixture_def files_fixture_def
        query_fixture_def)
  have o: "read_file files_shadow_fixture (gtf_local_of query_fixture) = Some ''other''"
    by (simp add: gtf_local_fixture read_file_def read_fuel_numeral files_shadow_fixture_def)
  show ?thesis
    using shadow_exists m o c f2 g by blast
qed

subsection \<open>The catalog builder\<close>




































end
